theory Spec2Isabelle
  imports Main "HOL-Library.Word" "HOL-Library.Sublist"
begin

section \<open>Error codes\<close>

text \<open>\<^verbatim>\<open>type Code uint32\<close>: an error code is an unsigned 32-bit integer.\<close>

type_synonym Code = "32 word"

text \<open>The constants of the \<^verbatim>\<open>iota\<close> block, numbered from 0 in declaration order.\<close>

definition ErrorCodeGeneric :: Code where "ErrorCodeGeneric = 0"
definition ErrorCodeUnknownAddress :: Code where "ErrorCodeUnknownAddress = 1"
definition ErrorCodeInsufficientBalance :: Code where "ErrorCodeInsufficientBalance = 2"
definition ErrorCodeInvalidJumpDest :: Code where "ErrorCodeInvalidJumpDest = 3"
definition ErrorCodeInsufficientGas :: Code where "ErrorCodeInsufficientGas = 4"
definition ErrorCodeMemoryOutOfBounds :: Code where "ErrorCodeMemoryOutOfBounds = 5"
definition ErrorCodeCodeOutOfBounds :: Code where "ErrorCodeCodeOutOfBounds = 6"
definition ErrorCodeInputOutOfBounds :: Code where "ErrorCodeInputOutOfBounds = 7"
definition ErrorCodeReturnDataOutOfBounds :: Code where "ErrorCodeReturnDataOutOfBounds = 8"
definition ErrorCodeCallStackOverflow :: Code where "ErrorCodeCallStackOverflow = 9"
definition ErrorCodeCallStackUnderflow :: Code where "ErrorCodeCallStackUnderflow = 10"
definition ErrorCodeDataStackOverflow :: Code where "ErrorCodeDataStackOverflow = 11"
definition ErrorCodeDataStackUnderflow :: Code where "ErrorCodeDataStackUnderflow = 12"
definition ErrorCodeInvalidContract :: Code where "ErrorCodeInvalidContract = 13"
definition ErrorCodeNativeContractCodeCopy :: Code where "ErrorCodeNativeContractCodeCopy = 14"
definition ErrorCodeExecutionAborted :: Code where "ErrorCodeExecutionAborted = 15"
definition ErrorCodeExecutionReverted :: Code where "ErrorCodeExecutionReverted = 16"
definition ErrorCodePermissionDenied :: Code where "ErrorCodePermissionDenied = 17"
definition ErrorCodeNativeFunction :: Code where "ErrorCodeNativeFunction = 18"
definition ErrorCodeEventPublish :: Code where "ErrorCodeEventPublish = 19"
definition ErrorCodeInvalidString :: Code where "ErrorCodeInvalidString = 20"
definition ErrorCodeEventMapping :: Code where "ErrorCodeEventMapping = 21"
definition ErrorCodeInvalidAddress :: Code where "ErrorCodeInvalidAddress = 22"
definition ErrorCodeDuplicateAddress :: Code where "ErrorCodeDuplicateAddress = 23"
definition ErrorCodeInsufficientFunds :: Code where "ErrorCodeInsufficientFunds = 24"
definition ErrorCodeOverpayment :: Code where "ErrorCodeOverpayment = 25"
definition ErrorCodeZeroPayment :: Code where "ErrorCodeZeroPayment = 26"
definition ErrorCodeInvalidSequence :: Code where "ErrorCodeInvalidSequence = 27"
definition ErrorCodeReservedAddress :: Code where "ErrorCodeReservedAddress = 28"
definition ErrorCodeIllegalWrite :: Code where "ErrorCodeIllegalWrite = 29"
definition ErrorCodeIntegerOverflow :: Code where "ErrorCodeIntegerOverflow = 30"
definition ErrorCodeInvalidProposal :: Code where "ErrorCodeInvalidProposal = 31"
definition ErrorCodeExpiredProposal :: Code where "ErrorCodeExpiredProposal = 32"
definition ErrorCodeProposalExecuted :: Code where "ErrorCodeProposalExecuted = 33"
definition ErrorCodeNoInputPermission :: Code where "ErrorCodeNoInputPermission = 34"
definition ErrorCodeAlreadyVoted :: Code where "ErrorCodeAlreadyVoted = 35"

text \<open>All the declared codes, in declaration order.\<close>

definition declared_codes :: "Code list" where
  "declared_codes =
    [ErrorCodeGeneric, ErrorCodeUnknownAddress, ErrorCodeInsufficientBalance,
     ErrorCodeInvalidJumpDest, ErrorCodeInsufficientGas, ErrorCodeMemoryOutOfBounds,
     ErrorCodeCodeOutOfBounds, ErrorCodeInputOutOfBounds, ErrorCodeReturnDataOutOfBounds,
     ErrorCodeCallStackOverflow, ErrorCodeCallStackUnderflow, ErrorCodeDataStackOverflow,
     ErrorCodeDataStackUnderflow, ErrorCodeInvalidContract,
     ErrorCodeNativeContractCodeCopy, ErrorCodeExecutionAborted,
     ErrorCodeExecutionReverted, ErrorCodePermissionDenied, ErrorCodeNativeFunction,
     ErrorCodeEventPublish, ErrorCodeInvalidString, ErrorCodeEventMapping,
     ErrorCodeInvalidAddress, ErrorCodeDuplicateAddress, ErrorCodeInsufficientFunds,
     ErrorCodeOverpayment, ErrorCodeZeroPayment, ErrorCodeInvalidSequence,
     ErrorCodeReservedAddress, ErrorCodeIllegalWrite, ErrorCodeIntegerOverflow,
     ErrorCodeInvalidProposal, ErrorCodeExpiredProposal, ErrorCodeProposalExecuted,
     ErrorCodeNoInputPermission, ErrorCodeAlreadyVoted]"

text \<open>
  \<^verbatim>\<open>func (c Code) String() string\<close>: the \<^verbatim>\<open>switch\<close>, with its cases in the order
  of the source and the \<^verbatim>\<open>default\<close> branch last.
\<close>

definition Code_String :: "Code \<Rightarrow> string" where
  "Code_String c =
    (if c = ErrorCodeUnknownAddress then ''Unknown address''
     else if c = ErrorCodeInsufficientBalance then ''Insufficient balance''
     else if c = ErrorCodeInvalidJumpDest then ''Invalid jump dest''
     else if c = ErrorCodeInsufficientGas then ''Insufficient gas''
     else if c = ErrorCodeMemoryOutOfBounds then ''Memory out of bounds''
     else if c = ErrorCodeCodeOutOfBounds then ''Code out of bounds''
     else if c = ErrorCodeInputOutOfBounds then ''Input out of bounds''
     else if c = ErrorCodeReturnDataOutOfBounds then ''Return data out of bounds''
     else if c = ErrorCodeCallStackOverflow then ''Call stack overflow''
     else if c = ErrorCodeCallStackUnderflow then ''Call stack underflow''
     else if c = ErrorCodeDataStackOverflow then ''Data stack overflow''
     else if c = ErrorCodeDataStackUnderflow then ''Data stack underflow''
     else if c = ErrorCodeInvalidContract then ''Invalid contract''
     else if c = ErrorCodePermissionDenied then ''Permission denied''
     else if c = ErrorCodeNativeContractCodeCopy then ''Tried to copy native contract code''
     else if c = ErrorCodeExecutionAborted then ''Execution aborted''
     else if c = ErrorCodeExecutionReverted then ''Execution reverted''
     else if c = ErrorCodeNativeFunction then ''Native function error''
     else if c = ErrorCodeEventPublish then ''Event publish error''
     else if c = ErrorCodeInvalidString then ''Invalid string''
     else if c = ErrorCodeEventMapping then ''Event mapping error''
     else if c = ErrorCodeGeneric then ''Generic error''
     else if c = ErrorCodeInvalidAddress then ''Invalid address''
     else if c = ErrorCodeDuplicateAddress then ''Duplicate address''
     else if c = ErrorCodeInsufficientFunds then ''Insufficient funds''
     else if c = ErrorCodeOverpayment then ''Overpayment''
     else if c = ErrorCodeZeroPayment then ''Zero payment error''
     else if c = ErrorCodeInvalidSequence then ''Invalid sequence number''
     else if c = ErrorCodeReservedAddress then ''Address is reserved for SNative or internal use''
     else if c = ErrorCodeIllegalWrite then ''Callee attempted to illegally modify state''
     else if c = ErrorCodeIntegerOverflow then ''Integer overflow''
     else if c = ErrorCodeInvalidProposal then ''Proposal is invalid''
     else if c = ErrorCodeExpiredProposal then
       ''Proposal is expired since sequence number does not match''
     else if c = ErrorCodeProposalExecuted then ''Proposal has already been executed''
     else if c = ErrorCodeNoInputPermission then ''Account has no input permission''
     else if c = ErrorCodeAlreadyVoted then ''Vote already registered for this address''
     else ''Unknown error'')"

section \<open>Formatting\<close>

text \<open>
  The verb \<^verbatim>\<open>%d\<close> of \<^verbatim>\<open>fmt.Sprintf\<close> on an unsigned integer: its decimal digits,
  most significant first, with no sign and no padding.
\<close>

fun decimal :: "nat \<Rightarrow> string" where
  "decimal n =
    (if n < 10 then [''0123456789'' ! n]
     else decimal (n div 10) @ [''0123456789'' ! (n mod 10)])"

declare decimal.simps [simp del]

text \<open>
  \<^verbatim>\<open>func (c Code) ErrorCode() Code\<close> and \<^verbatim>\<open>func (c Code) Uint32() uint32\<close>
\<close>

definition Code_ErrorCode :: "Code \<Rightarrow> Code" where
  "Code_ErrorCode c = c"

definition Code_Uint32 :: "Code \<Rightarrow> 32 word" where
  "Code_Uint32 c = c"

text \<open>
  \<^verbatim>\<open>func (c Code) Error() string\<close>, that is
  \<^verbatim>\<open>fmt.Sprintf("Error %d: %s", c, c.String())\<close>.
\<close>

definition Code_Error :: "Code \<Rightarrow> string" where
  "Code_Error c = ''Error '' @ decimal (unat c) @ '': '' @ Code_String c"

section \<open>Exceptions\<close>

text \<open>
  The struct \<^verbatim>\<open>Exception\<close> is declared outside \<^verbatim>\<open>errors.go\<close>; the file reads and
  writes its two fields \<^verbatim>\<open>Code\<close> and \<^verbatim>\<open>Exception\<close>. A \<^verbatim>\<open>*Exception\<close> is an
  \<open>Exception option\<close>, \<open>None\<close> being the nil pointer.
\<close>

record Exception =
  Code :: Code
  Exception :: string

text \<open>Reading a field through a nil pointer is a run-time panic.\<close>

datatype panic = NilPointerDereference

text \<open>
  Interface values. A \<^verbatim>\<open>CodedError\<close> is the nil interface, a \<^verbatim>\<open>*Exception\<close>
  (a nil pointer inside an interface is not the nil interface), a \<^verbatim>\<open>Code\<close>, or a
  value of some other type with the two methods, given by what its \<^verbatim>\<open>ErrorCode()\<close>
  and \<^verbatim>\<open>Error()\<close> return. An \<^verbatim>\<open>error\<close> is a \<^verbatim>\<open>CodedError\<close> or a value that
  has only \<^verbatim>\<open>Error()\<close>, given by the text it returns.
\<close>

datatype CodedError =
    CodedNil
  | CodedException "Exception option"
  | CodedCode Code
  | CodedOther Code string

datatype error =
    ErrorCoded CodedError
  | ErrorOther string

text \<open>
  \<^verbatim>\<open>func NewException(errorCode Code, exception string) *Exception\<close>
\<close>

definition NewException :: "Code \<Rightarrow> string \<Rightarrow> Exception option" where
  "NewException errorCode exception =
    (if exception = [] then None
     else Some \<lparr>Code = errorCode, Exception = exception\<rparr>)"

text \<open>
  \<^verbatim>\<open>func (e *Exception) ErrorCode() Code\<close> reads \<^verbatim>\<open>e.Code\<close> with no nil check.
\<close>

definition Exception_ErrorCode :: "Exception option \<Rightarrow> panic + Code" where
  "Exception_ErrorCode e =
    (case e of None \<Rightarrow> Inl NilPointerDereference | Some x \<Rightarrow> Inr (Code x))"

text \<open>
  \<^verbatim>\<open>func (e *Exception) String() string\<close>, that is
  \<^verbatim>\<open>fmt.Sprintf("Error %d: %s", e.Code, e.Exception)\<close>, with no nil check either.
\<close>

definition Exception_String :: "Exception option \<Rightarrow> panic + string" where
  "Exception_String e =
    (case e of
       None \<Rightarrow> Inl NilPointerDereference
     | Some x \<Rightarrow> Inr (''Error '' @ decimal (unat (Code x)) @ '': '' @ Exception x))"

text \<open>
  \<^verbatim>\<open>func (e *Exception) Error() string\<close> checks for nil first.
\<close>

definition Exception_Error :: "Exception option \<Rightarrow> string" where
  "Exception_Error e = (case e of None \<Rightarrow> [] | Some x \<Rightarrow> Exception x)"

text \<open>
  \<^verbatim>\<open>func (e *Exception) AsError() error\<close>: the nil interface for the nil pointer.
\<close>

definition AsError :: "Exception option \<Rightarrow> error" where
  "AsError e =
    (case e of
       None \<Rightarrow> ErrorCoded CodedNil
     | Some x \<Rightarrow> ErrorCoded (CodedException (Some x)))"

text \<open>
  \<^verbatim>\<open>func AsException(err error) *Exception\<close>: the nil test, then the type switch
  in the order of the source.
\<close>

fun AsException :: "error \<Rightarrow> Exception option" where
  "AsException (ErrorCoded CodedNil) = None"
| "AsException (ErrorCoded (CodedException e)) = e"
| "AsException (ErrorCoded (CodedCode c)) = NewException (Code_ErrorCode c) (Code_Error c)"
| "AsException (ErrorCoded (CodedOther c s)) = NewException c s"
| "AsException (ErrorOther s) = NewException ErrorCodeGeneric s"

text \<open>
  \<^verbatim>\<open>func Wrap(err error, message string) *Exception\<close>. The arguments of the call
  to \<^verbatim>\<open>NewException\<close> are evaluated first, \<^verbatim>\<open>ex.ErrorCode()\<close> before the message.
\<close>

definition Wrap :: "error \<Rightarrow> string \<Rightarrow> panic + Exception option" where
  "Wrap err message =
    (let ex = AsException err in
     case Exception_ErrorCode ex of
       Inl p \<Rightarrow> Inl p
     | Inr c \<Rightarrow> Inr (NewException c (message @ '': '' @ Exception_Error ex)))"

text \<open>
  Nested calls \<^verbatim>\<open>Wrap(... Wrap(Wrap(e, m1), m2) ..., mn)\<close>: each result, a
  \<^verbatim>\<open>*Exception\<close>, is passed on as the \<^verbatim>\<open>error\<close> argument of the next call; a
  panic ends the run.
\<close>

fun Wraps :: "Exception option \<Rightarrow> string list \<Rightarrow> panic + Exception option" where
  "Wraps e [] = Inr e"
| "Wraps e (message # messages) =
    (case Wrap (ErrorCoded (CodedException e)) message of
       Inl p \<Rightarrow> Inl p
     | Inr e' \<Rightarrow> Wraps e' messages)"

text \<open>
  \<^verbatim>\<open>func ErrorCodef(errorCode Code, format string, a ...interface{}) *Exception\<close> and
  \<^verbatim>\<open>func Errorf(format string, a ...interface{}) *Exception\<close>. The library function
  \<^verbatim>\<open>fmt.Sprintf\<close> is the parameter \<open>sprintf\<close>.
\<close>

definition ErrorCodef ::
  "(string \<Rightarrow> 'a list \<Rightarrow> string) \<Rightarrow> Code \<Rightarrow> string \<Rightarrow> 'a list \<Rightarrow> Exception option" where
  "ErrorCodef sprintf errorCode format a = NewException errorCode (sprintf format a)"

definition Errorf ::
  "(string \<Rightarrow> 'a list \<Rightarrow> string) \<Rightarrow> string \<Rightarrow> 'a list \<Rightarrow> Exception option" where
  "Errorf sprintf format a = ErrorCodef sprintf ErrorCodeGeneric format a"


section \<open>The first-error sink\<close>

text \<open>
  \<^verbatim>\<open>type singleError struct { CodedError }\<close>: one embedded interface field. The
  methods have a pointer receiver and update the struct in place; here they take the
  struct and return the updated one.
\<close>

record singleError =
  CodedError :: CodedError

text \<open>\<^verbatim>\<open>func FirstOnly() *singleError\<close>: the zero value, its field the nil interface.\<close>

definition FirstOnly :: singleError where
  "FirstOnly = \<lparr>CodedError = CodedNil\<rparr>"

text \<open>
  \<^verbatim>\<open>func (se *singleError) PushError(err error)\<close>
\<close>

definition PushError :: "singleError \<Rightarrow> error \<Rightarrow> singleError" where
  "PushError se err =
    (if CodedError se = CodedNil then
       (let ex = AsException err in
        if ex \<noteq> None then se\<lparr>CodedError := CodedException ex\<rparr> else se)
     else se)"

text \<open>
  \<^verbatim>\<open>func (se *singleError) Error() CodedError\<close> reads the field and writes nothing.
\<close>

definition singleError_Error :: "singleError \<Rightarrow> CodedError" where
  "singleError_Error se = CodedError se"

text \<open>
  \<^verbatim>\<open>func (se *singleError) Reset()\<close>
\<close>

definition Reset :: "singleError \<Rightarrow> singleError" where
  "Reset se = se\<lparr>CodedError := CodedNil\<rparr>"

text \<open>A run of calls to \<^verbatim>\<open>PushError\<close> on one sink, in order.\<close>

fun PushErrors :: "singleError \<Rightarrow> error list \<Rightarrow> singleError" where
  "PushErrors se [] = se"
| "PushErrors se (err # errs) = PushErrors (PushError se err) errs"

section \<open>Facts about the definitions\<close>

lemmas ErrorCode_defs =
  ErrorCodeGeneric_def ErrorCodeUnknownAddress_def ErrorCodeInsufficientBalance_def
  ErrorCodeInvalidJumpDest_def ErrorCodeInsufficientGas_def ErrorCodeMemoryOutOfBounds_def
  ErrorCodeCodeOutOfBounds_def ErrorCodeInputOutOfBounds_def
  ErrorCodeReturnDataOutOfBounds_def ErrorCodeCallStackOverflow_def
  ErrorCodeCallStackUnderflow_def ErrorCodeDataStackOverflow_def
  ErrorCodeDataStackUnderflow_def ErrorCodeInvalidContract_def
  ErrorCodeNativeContractCodeCopy_def ErrorCodeExecutionAborted_def
  ErrorCodeExecutionReverted_def ErrorCodePermissionDenied_def ErrorCodeNativeFunction_def
  ErrorCodeEventPublish_def ErrorCodeInvalidString_def ErrorCodeEventMapping_def
  ErrorCodeInvalidAddress_def ErrorCodeDuplicateAddress_def ErrorCodeInsufficientFunds_def
  ErrorCodeOverpayment_def ErrorCodeZeroPayment_def ErrorCodeInvalidSequence_def
  ErrorCodeReservedAddress_def ErrorCodeIllegalWrite_def ErrorCodeIntegerOverflow_def
  ErrorCodeInvalidProposal_def ErrorCodeExpiredProposal_def ErrorCodeProposalExecuted_def
  ErrorCodeNoInputPermission_def ErrorCodeAlreadyVoted_def

lemma Code_String_declared:
  "map Code_String declared_codes =
    [''Generic error'', ''Unknown address'', ''Insufficient balance'', ''Invalid jump dest'',
     ''Insufficient gas'', ''Memory out of bounds'', ''Code out of bounds'',
     ''Input out of bounds'', ''Return data out of bounds'', ''Call stack overflow'',
     ''Call stack underflow'', ''Data stack overflow'', ''Data stack underflow'',
     ''Invalid contract'', ''Tried to copy native contract code'', ''Execution aborted'',
     ''Execution reverted'', ''Permission denied'', ''Native function error'',
     ''Event publish error'', ''Invalid string'', ''Event mapping error'',
     ''Invalid address'', ''Duplicate address'', ''Insufficient funds'', ''Overpayment'',
     ''Zero payment error'', ''Invalid sequence number'',
     ''Address is reserved for SNative or internal use'',
     ''Callee attempted to illegally modify state'', ''Integer overflow'',
     ''Proposal is invalid'', ''Proposal is expired since sequence number does not match'',
     ''Proposal has already been executed'', ''Account has no input permission'',
     ''Vote already registered for this address'']"
  by (simp add: declared_codes_def Code_String_def ErrorCode_defs)

lemma Code_String_distinct: "distinct (map Code_String declared_codes)"
  unfolding Code_String_declared by simp

lemma Code_String_undeclared:
  "c \<notin> set declared_codes \<Longrightarrow> Code_String c = ''Unknown error''"
  by (simp add: declared_codes_def Code_String_def)

lemma declared_range: "set declared_codes = {c. c \<le> ErrorCodeAlreadyVoted}"
proof -
  have a: "c \<in> set declared_codes" if "c \<le> 35" for c :: Code
  proof -
    from that have "unat c < 36" by (simp add: word_le_nat_alt)
    then show ?thesis
      unfolding declared_codes_def ErrorCode_defs
      by (simp add: word_unat_eq_iff) arith
  qed
  have b: "c \<le> 35" if "c \<in> set declared_codes" for c :: Code
    using that by (auto simp add: declared_codes_def ErrorCode_defs)
  show ?thesis using a b by (auto simp add: ErrorCodeAlreadyVoted_def)
qed

lemma decimal_nonempty: "decimal n \<noteq> []"
  by (subst decimal.simps) simp

lemma Code_Error_nonempty: "Code_Error c \<noteq> []"
  by (simp add: Code_Error_def)

lemma NewException_Some_nonempty: "NewException k m = Some e \<Longrightarrow> Exception e \<noteq> []"
  by (auto simp add: NewException_def split: if_splits)

lemma Wrap_absent: "AsException err = None \<Longrightarrow> Wrap err m = Inl NilPointerDereference"
  by (simp add: Wrap_def Exception_ErrorCode_def)

lemma Wrap_present:
  "AsException err = Some f \<Longrightarrow>
   Wrap err ctx = Inr (Some \<lparr>Code = Code f, Exception = ctx @ '': '' @ Exception f\<rparr>)"
  by (simp add: Wrap_def Exception_ErrorCode_def Exception_Error_def NewException_def)

lemma Wraps_present:
  "\<exists>g. Wraps (Some f) ctxs = Inr (Some g) \<and> Code g = Code f \<and>
       Exception g = foldl (\<lambda>m ctx. ctx @ '': '' @ m) (Exception f) ctxs"
proof (induction ctxs arbitrary: f)
  case Nil
  show ?case by simp
next
  case (Cons ctx ctxs)
  let ?g = "\<lparr>Code = Code f, Exception = ctx @ '': '' @ Exception f\<rparr>"
  have "Wrap (ErrorCoded (CodedException (Some f))) ctx = Inr (Some ?g)"
    by (rule Wrap_present) simp
  with Cons.IH [of ?g] show ?case by simp
qed



lemma PushError_empty_present:
  "CodedError se = CodedNil \<Longrightarrow> AsException err = Some f \<Longrightarrow>
   PushError se err = se\<lparr>CodedError := CodedException (Some f)\<rparr>"
  by (simp add: PushError_def)

lemma PushError_empty_absent:
  "CodedError se = CodedNil \<Longrightarrow> AsException err = None \<Longrightarrow> PushError se err = se"
  by (simp add: PushError_def)

lemma PushError_held: "CodedError se \<noteq> CodedNil \<Longrightarrow> PushError se err = se"
  by (simp add: PushError_def)

lemma PushErrors_held: "CodedError se \<noteq> CodedNil \<Longrightarrow> PushErrors se errs = se"
  by (induction errs) (simp_all add: PushError_held)

lemma Reset_is_FirstOnly: "Reset se = FirstOnly"
  by (simp add: Reset_def FirstOnly_def)

section \<open>The error codes and their descriptions\<close>

text \<open>
  Claim C8. \<^verbatim>\<open>Code.String\<close> is a total function of the code. On each of the 36
  declared codes, which are exactly the codes up to \<^verbatim>\<open>ErrorCodeAlreadyVoted\<close>, it
  returns a string that is not empty and is not the fallback; two different declared
  codes have different descriptions; on every code above the declared range it returns
  \<^verbatim>\<open>"Unknown error"\<close>.
\<close>

theorem Code_String_total:
  "(\<forall>c \<in> set declared_codes. Code_String c \<noteq> [] \<and> Code_String c \<noteq> ''Unknown error'') \<and>
   inj_on Code_String (set declared_codes) \<and>
   set declared_codes = {c. c \<le> ErrorCodeAlreadyVoted} \<and>
   (\<forall>c. ErrorCodeAlreadyVoted < c \<longrightarrow> Code_String c = ''Unknown error'')"
proof -
  have "\<forall>s \<in> set (map Code_String declared_codes). s \<noteq> [] \<and> s \<noteq> ''Unknown error''"
    unfolding Code_String_declared by simp
  then have 1: "\<forall>c \<in> set declared_codes. Code_String c \<noteq> [] \<and> Code_String c \<noteq> ''Unknown error''"
    by simp
  have 2: "inj_on Code_String (set declared_codes)"
    using Code_String_distinct by (simp add: distinct_map)
  have 3: "Code_String c = ''Unknown error''" if "ErrorCodeAlreadyVoted < c" for c
    using that Code_String_undeclared [of c] by (auto simp add: declared_range)
  show ?thesis using 1 2 3 declared_range by blast
qed

theorem Code_String_total_witness:
  "ErrorCodeInsufficientGas \<in> set declared_codes \<and>
   Code_String ErrorCodeInsufficientGas = ''Insufficient gas'' \<and>
   Code_String ErrorCodeCallStackOverflow \<noteq> Code_String ErrorCodeInsufficientGas \<and>
   (ErrorCodeAlreadyVoted < 36 \<and> Code_String 36 = ''Unknown error'')"
proof -
  have a: "ErrorCodeInsufficientGas \<in> set declared_codes"
    and b: "ErrorCodeCallStackOverflow \<in> set declared_codes"
    by (simp_all add: declared_codes_def)
  have c: "ErrorCodeCallStackOverflow \<noteq> ErrorCodeInsufficientGas"
    by (simp add: ErrorCode_defs)
  have d: "ErrorCodeAlreadyVoted < 36" by (simp add: ErrorCode_defs)
  have e: "Code_String ErrorCodeInsufficientGas = ''Insufficient gas''"
    by (simp add: Code_String_def ErrorCode_defs)
  from Code_String_total
  have inj: "inj_on Code_String (set declared_codes)"
    and unk: "\<forall>c. ErrorCodeAlreadyVoted < c \<longrightarrow> Code_String c = ''Unknown error''"
    by blast+
  from inj a b c
  have f: "Code_String ErrorCodeCallStackOverflow \<noteq> Code_String ErrorCodeInsufficientGas"
    by (simp add: inj_on_eq_iff)
  from unk d have g: "Code_String 36 = ''Unknown error''" by blast
  from a e f d g show ?thesis by blast
qed

section \<open>Construction\<close>

text \<open>
  Claim C5. For every code \<open>k\<close> and message \<open>m\<close>, \<^verbatim>\<open>NewException(k, m)\<close> is nil
  exactly when \<open>m\<close> is the empty string, and otherwise it is an exception holding
  exactly the pair \<open>(k, m)\<close>, the message unchanged.
\<close>

theorem NewException_absent_iff_empty:
  "(NewException k m = None \<longleftrightarrow> m = []) \<and>
   (m \<noteq> [] \<longrightarrow> NewException k m = Some \<lparr>Code = k, Exception = m\<rparr>)"
  by (simp add: NewException_def)

theorem NewException_absent_iff_empty_witness:
  "(NewException ErrorCodeInsufficientGas ''gas exhausted'' = None
      \<longleftrightarrow> ''gas exhausted'' = []) \<and>
   ''gas exhausted'' \<noteq> [] \<and>
   NewException ErrorCodeInsufficientGas ''gas exhausted''
     = Some \<lparr>Code = ErrorCodeInsufficientGas, Exception = ''gas exhausted''\<rparr>"
  using NewException_absent_iff_empty [of ErrorCodeInsufficientGas "''gas exhausted''"]
  by simp

section \<open>Coercion\<close>

text \<open>
  Claim C4, as stated, asks that \<^verbatim>\<open>AsException\<close> of every non-nil value be an
  exception with the value's code (the generic code when it has none) and the value's
  text. It fails on a value whose text is empty: the result is nil, both for a value
  with only \<^verbatim>\<open>Error()\<close> and for a value that has a code.
\<close>

theorem AsException_empty_text_counterexample:
  "AsException (ErrorOther []) = None \<and>
   AsException (ErrorOther []) \<noteq> Some \<lparr>Code = ErrorCodeGeneric, Exception = []\<rparr> \<and>
   AsException (ErrorCoded (CodedOther ErrorCodeInsufficientGas [])) = None \<and>
   AsException (ErrorCoded (CodedOther ErrorCodeInsufficientGas []))
     \<noteq> Some \<lparr>Code = ErrorCodeInsufficientGas, Exception = []\<rparr>"
  by (simp add: NewException_def)

text \<open>
  Claim C4, amended. \<^verbatim>\<open>AsException\<close> maps the nil interface and the nil
  \<^verbatim>\<open>*Exception\<close> to nil and returns a non-nil \<^verbatim>\<open>*Exception\<close> as it is, code and
  message unchanged. A \<^verbatim>\<open>Code\<close> becomes the exception with that code and the text of
  \<^verbatim>\<open>Code.Error\<close>. Any other value with a code becomes the exception with that code and
  the value's text, and a value without a code becomes the exception with the generic
  code and the value's text, provided the text is not empty; when the text is empty the
  result is nil.
\<close>

theorem AsException_by_input:
  "AsException (ErrorCoded CodedNil) = None \<and>
   AsException (ErrorCoded (CodedException None)) = None \<and>
   AsException (ErrorCoded (CodedException (Some x))) = Some x \<and>
   AsException (ErrorCoded (CodedCode c)) = Some \<lparr>Code = c, Exception = Code_Error c\<rparr> \<and>
   (s \<noteq> [] \<longrightarrow>
      AsException (ErrorCoded (CodedOther c s)) = Some \<lparr>Code = c, Exception = s\<rparr> \<and>
      AsException (ErrorOther s) = Some \<lparr>Code = ErrorCodeGeneric, Exception = s\<rparr>) \<and>
   AsException (ErrorCoded (CodedOther c [])) = None \<and>
   AsException (ErrorOther []) = None"
  by (simp add: NewException_def Code_ErrorCode_def Code_Error_nonempty)

theorem AsException_by_input_witness:
  "''boom'' \<noteq> [] \<and>
   AsException (ErrorCoded (CodedOther ErrorCodeInvalidJumpDest ''boom''))
     = Some \<lparr>Code = ErrorCodeInvalidJumpDest, Exception = ''boom''\<rparr> \<and>
   AsException (ErrorOther ''boom'') = Some \<lparr>Code = ErrorCodeGeneric, Exception = ''boom''\<rparr>"
  using AsException_by_input [of _ ErrorCodeInvalidJumpDest "''boom''"]
  by simp

section \<open>Wrapping\<close>

text \<open>
  Claim C3 says that \<^verbatim>\<open>Wrap\<close> of a value that coerces to nil does not crash and
  returns an exception with the generic code and the message \<^verbatim>\<open>prefix + ": "\<close>, and
  that the code and the message of a nil \<^verbatim>\<open>*Exception\<close> can both be computed. In the
  source \<^verbatim>\<open>Error()\<close> tests its receiver for nil but \<^verbatim>\<open>ErrorCode()\<close> reads
  \<^verbatim>\<open>e.Code\<close> without the test, so \<^verbatim>\<open>ErrorCode()\<close> on nil panics, and with it
  \<^verbatim>\<open>Wrap\<close> of the nil interface and of a nil \<^verbatim>\<open>*Exception\<close>.
\<close>

theorem Wrap_nil_panics:
  "Wrap (ErrorCoded CodedNil) ''ctx'' = Inl NilPointerDereference \<and>
   Wrap (ErrorCoded (CodedException None)) ''ctx'' = Inl NilPointerDereference \<and>
   Exception_ErrorCode None = Inl NilPointerDereference \<and>
   Exception_Error None = []"
  by (simp add: Wrap_def Exception_ErrorCode_def Exception_Error_def)

text \<open>
  Claim C6. For every value that coerces to an exception \<open>f\<close>, in particular for
  \<open>f\<close> itself, and every prefix \<open>ctx\<close>, \<^verbatim>\<open>Wrap\<close> returns the exception with the code
  of \<open>f\<close> and the message \<^verbatim>\<open>ctx + ": " + f.Exception\<close>. Hence any number of nested
  calls of \<^verbatim>\<open>Wrap\<close> on \<open>f\<close> return an exception with the code of \<open>f\<close>, its message
  that of \<open>f\<close> behind the prefixes.
\<close>

theorem Wrap_preserves_code:
  "Wrap (ErrorCoded (CodedException (Some f))) ctx
     = Inr (Some \<lparr>Code = Code f, Exception = ctx @ '': '' @ Exception f\<rparr>) \<and>
   (AsException err = Some f \<longrightarrow>
      Wrap err ctx = Inr (Some \<lparr>Code = Code f, Exception = ctx @ '': '' @ Exception f\<rparr>)) \<and>
   (\<exists>g. Wraps (Some f) ctxs = Inr (Some g) \<and> Code g = Code f \<and>
        Exception g = foldl (\<lambda>m ctx. ctx @ '': '' @ m) (Exception f) ctxs)"
proof -
  have "AsException (ErrorCoded (CodedException (Some f))) = Some f" by simp
  then have "Wrap (ErrorCoded (CodedException (Some f))) ctx
      = Inr (Some \<lparr>Code = Code f, Exception = ctx @ '': '' @ Exception f\<rparr>)"
    by (rule Wrap_present)
  then show ?thesis using Wrap_present [of err f ctx] Wraps_present [of f ctxs] by blast
qed

theorem Wrap_preserves_code_witness:
  "AsException (ErrorCoded (CodedOther ErrorCodeExecutionReverted ''revert''))
     = Some \<lparr>Code = ErrorCodeExecutionReverted, Exception = ''revert''\<rparr> \<and>
   Wrap (ErrorCoded (CodedOther ErrorCodeExecutionReverted ''revert'')) ''call''
     = Inr (Some \<lparr>Code = ErrorCodeExecutionReverted, Exception = ''call: revert''\<rparr>) \<and>
   Wraps (Some \<lparr>Code = ErrorCodeExecutionReverted, Exception = ''revert''\<rparr>) [''call'', ''tx'']
     = Inr (Some \<lparr>Code = ErrorCodeExecutionReverted, Exception = ''tx: call: revert''\<rparr>)"
proof -
  let ?f = "\<lparr>Code = ErrorCodeExecutionReverted, Exception = ''revert''\<rparr>"
  let ?err = "ErrorCoded (CodedOther ErrorCodeExecutionReverted ''revert'')"
  have h: "AsException ?err = Some ?f" by (simp add: NewException_def)
  note inst = Wrap_preserves_code [of ?f "''call''" ?err "[''call'', ''tx'']"]
  from inst h have "Wrap ?err ''call''
      = Inr (Some \<lparr>Code = Code ?f, Exception = ''call'' @ '': '' @ Exception ?f\<rparr>)"
    by blast
  then have a: "Wrap ?err ''call''
      = Inr (Some \<lparr>Code = ErrorCodeExecutionReverted, Exception = ''call: revert''\<rparr>)"
    by simp
  from inst obtain g where g1: "Wraps (Some ?f) [''call'', ''tx''] = Inr (Some g)"
    and g2: "Code g = Code ?f"
    and g3: "Exception g = foldl (\<lambda>m ctx. ctx @ '': '' @ m) (Exception ?f) [''call'', ''tx'']"
    by blast
  from g2 g3
  have "g = \<lparr>Code = ErrorCodeExecutionReverted, Exception = ''tx: call: revert''\<rparr>"
    by simp
  with g1 have b: "Wraps (Some ?f) [''call'', ''tx'']
      = Inr (Some \<lparr>Code = ErrorCodeExecutionReverted, Exception = ''tx: call: revert''\<rparr>)"
    by (simp only:)
  from h a b show ?thesis by blast
qed

section \<open>Equality\<close>



section \<open>Diagnostic and debug strings\<close>

text \<open>
  Claim C9, as stated, asks that the debug string \<^verbatim>\<open>String()\<close> of an exception hold
  the number of its code and the description of its code. The source formats
  \<^verbatim>\<open>e.Code\<close> and \<^verbatim>\<open>e.Exception\<close>: the debug string of the exception with code
  \<^verbatim>\<open>ErrorCodeInsufficientGas\<close> and message \<^verbatim>\<open>"gas exhausted"\<close> is
  \<^verbatim>\<open>"Error 4: gas exhausted"\<close>, in which the description \<^verbatim>\<open>"Insufficient gas"\<close>
  does not occur; it is not the text that \<^verbatim>\<open>Code.Error\<close> builds from number and
  description.
\<close>

theorem Exception_String_description_counterexample:
  "Exception_String (Some \<lparr>Code = ErrorCodeInsufficientGas, Exception = ''gas exhausted''\<rparr>)
     = Inr ''Error 4: gas exhausted'' \<and>
   Code_String ErrorCodeInsufficientGas = ''Insufficient gas'' \<and>
   \<not> sublist (Code_String ErrorCodeInsufficientGas) ''Error 4: gas exhausted'' \<and>
   Exception_String (Some \<lparr>Code = ErrorCodeInsufficientGas, Exception = ''gas exhausted''\<rparr>)
     \<noteq> Inr (Code_Error ErrorCodeInsufficientGas)"
proof -
  have a: "Exception_String
      (Some \<lparr>Code = ErrorCodeInsufficientGas, Exception = ''gas exhausted''\<rparr>)
      = Inr ''Error 4: gas exhausted''"
    by (simp add: Exception_String_def ErrorCodeInsufficientGas_def decimal.simps)
  have b: "Code_String ErrorCodeInsufficientGas = ''Insufficient gas''"
    by (simp add: Code_String_def ErrorCode_defs)
  have c: "\<not> sublist ''Insufficient gas'' ''Error 4: gas exhausted''"
    by code_simp
  have d: "Code_Error ErrorCodeInsufficientGas = ''Error 4: Insufficient gas''"
    by (simp add: Code_Error_def b) (simp add: ErrorCodeInsufficientGas_def decimal.simps)
  show ?thesis unfolding a b d using c by simp
qed

text \<open>
  Claim C9, amended. For every non-nil exception, \<^verbatim>\<open>Error()\<close> is exactly its message
  with nothing added, and the debug string \<^verbatim>\<open>String()\<close> is \<^verbatim>\<open>"Error "\<close>, the code
  in decimal, \<^verbatim>\<open>": "\<close> and the message; the two strings are never the same.
\<close>

theorem Exception_Error_and_String:
  "Exception_Error (Some e) = Exception e \<and>
   Exception_String (Some e)
     = Inr (''Error '' @ decimal (unat (Code e)) @ '': '' @ Exception e) \<and>
   Exception_String (Some e) \<noteq> Inr (Exception_Error (Some e))"
proof -
  have "length (''Error '' @ decimal (unat (Code e)) @ '': '' @ Exception e)
      \<noteq> length (Exception e)"
    by simp
  then have "''Error '' @ decimal (unat (Code e)) @ '': '' @ Exception e \<noteq> Exception e"
    by metis
  then show ?thesis by (simp add: Exception_Error_def Exception_String_def)
qed

section \<open>Messages of constructed exceptions\<close>

text \<open>
  Claim C10, as stated, asks that no constructor return a non-nil exception with an
  empty message. \<^verbatim>\<open>AsException\<close> returns a \<^verbatim>\<open>*Exception\<close> argument as it is,
  so the exception with an empty message comes back non-nil, its diagnostic empty.
\<close>

theorem AsException_empty_message_counterexample:
  "AsException (ErrorCoded (CodedException (Some \<lparr>Code = ErrorCodeGeneric, Exception = []\<rparr>)))
     = Some \<lparr>Code = ErrorCodeGeneric, Exception = []\<rparr> \<and>
   AsException (ErrorCoded (CodedException (Some \<lparr>Code = ErrorCodeGeneric, Exception = []\<rparr>)))
     \<noteq> None \<and>
   Exception_Error
     (AsException (ErrorCoded (CodedException (Some \<lparr>Code = ErrorCodeGeneric, Exception = []\<rparr>))))
     = []"
  by (simp add: Exception_Error_def)

text \<open>
  Claim C10, amended. A non-nil exception returned by \<^verbatim>\<open>NewException\<close>,
  \<^verbatim>\<open>ErrorCodef\<close> or \<^verbatim>\<open>Errorf\<close> has a non-empty message, and each of them returns nil
  exactly when the message it is given or formats is empty. \<^verbatim>\<open>Wrap\<close>, when it returns,
  returns a non-nil exception with a non-empty message. \<^verbatim>\<open>AsException\<close> of a value
  that is not a \<^verbatim>\<open>*Exception\<close> returns nil or an exception with a non-empty message;
  a \<^verbatim>\<open>*Exception\<close> it returns unchanged, whatever its message.
\<close>

theorem constructors_message_nonempty:
  "(NewException k m = Some e1 \<longrightarrow> Exception e1 \<noteq> []) \<and>
   (ErrorCodef sprintf k format args = Some e2 \<longrightarrow> Exception e2 \<noteq> []) \<and>
   (Errorf sprintf format args = Some e3 \<longrightarrow> Exception e3 \<noteq> []) \<and>
   (NewException k m = None \<longleftrightarrow> m = []) \<and>
   (ErrorCodef sprintf k format args = None \<longleftrightarrow> sprintf format args = []) \<and>
   (Errorf sprintf format args = None \<longleftrightarrow> sprintf format args = []) \<and>
   (Wrap err message = Inr r \<longrightarrow> (\<exists>g. r = Some g \<and> Exception g \<noteq> [])) \<and>
   ((\<forall>p. err \<noteq> ErrorCoded (CodedException p)) \<and> AsException err = Some e4
      \<longrightarrow> Exception e4 \<noteq> []) \<and>
   AsException (ErrorCoded (CodedException p)) = p"
proof -
  have w: "\<exists>g. r = Some g \<and> Exception g \<noteq> []" if "Wrap err message = Inr r"
  proof (cases "AsException err")
    case None
    with that show ?thesis by (simp add: Wrap_absent)
  next
    case (Some f)
    with that show ?thesis by (auto simp add: Wrap_present)
  qed
  have c: "Exception e4 \<noteq> []"
    if "\<forall>p. err \<noteq> ErrorCoded (CodedException p)" and "AsException err = Some e4"
    using that by (cases err rule: AsException.cases) (auto dest: NewException_Some_nonempty)
  have n: "NewException k m = None \<longleftrightarrow> m = []" for k m
    by (simp add: NewException_def)
  show ?thesis
    using w c NewException_Some_nonempty n
    by (auto simp add: ErrorCodef_def Errorf_def)
qed

theorem constructors_message_nonempty_witness:
  "NewException ErrorCodeInsufficientGas ''gas exhausted''
     = Some \<lparr>Code = ErrorCodeInsufficientGas, Exception = ''gas exhausted''\<rparr> \<and>
   ErrorCodef (\<lambda>f xs. f @ concat xs) ErrorCodeInsufficientGas ''gas '' [''exhausted'']
     = Some \<lparr>Code = ErrorCodeInsufficientGas, Exception = ''gas exhausted''\<rparr> \<and>
   Errorf (\<lambda>f xs. f @ concat xs) ''gas '' [''exhausted'']
     = Some \<lparr>Code = ErrorCodeGeneric, Exception = ''gas exhausted''\<rparr> \<and>
   Wrap (ErrorOther ''boom'') ''ctx''
     = Inr (Some \<lparr>Code = ErrorCodeGeneric, Exception = ''ctx: boom''\<rparr>) \<and>
   (\<forall>p. ErrorOther ''boom'' \<noteq> ErrorCoded (CodedException p)) \<and>
   AsException (ErrorOther ''boom'') = Some \<lparr>Code = ErrorCodeGeneric, Exception = ''boom''\<rparr> \<and>
   Exception \<lparr>Code = ErrorCodeInsufficientGas, Exception = ''gas exhausted''\<rparr> \<noteq> [] \<and>
   Exception \<lparr>Code = ErrorCodeGeneric, Exception = ''ctx: boom''\<rparr> \<noteq> [] \<and>
   Exception \<lparr>Code = ErrorCodeGeneric, Exception = ''boom''\<rparr> \<noteq> []"
proof -
  let ?sp = "\<lambda>f xs. f @ concat xs :: string"
  let ?e = "\<lparr>Code = ErrorCodeInsufficientGas, Exception = ''gas exhausted''\<rparr>"
  let ?e3 = "\<lparr>Code = ErrorCodeGeneric, Exception = ''gas exhausted''\<rparr>"
  let ?r = "Some \<lparr>Code = ErrorCodeGeneric, Exception = ''ctx: boom''\<rparr>"
  let ?e4 = "\<lparr>Code = ErrorCodeGeneric, Exception = ''boom''\<rparr>"
  have 1: "NewException ErrorCodeInsufficientGas ''gas exhausted'' = Some ?e"
    by (simp add: NewException_def)
  have 2: "ErrorCodef ?sp ErrorCodeInsufficientGas ''gas '' [''exhausted''] = Some ?e"
    by (simp add: ErrorCodef_def NewException_def)
  have 3: "Errorf ?sp ''gas '' [''exhausted''] = Some ?e3"
    by (simp add: Errorf_def ErrorCodef_def NewException_def)
  have 4: "Wrap (ErrorOther ''boom'') ''ctx'' = Inr ?r"
    by (simp add: Wrap_def NewException_def Exception_ErrorCode_def Exception_Error_def)
  have 5: "\<forall>p. ErrorOther ''boom'' \<noteq> ErrorCoded (CodedException p)" by simp
  have 6: "AsException (ErrorOther ''boom'') = Some ?e4"
    by (simp add: NewException_def)
  note inst = constructors_message_nonempty
    [of ErrorCodeInsufficientGas "''gas exhausted''" ?e ?sp "''gas ''" "[''exhausted'']" ?e
      ?e3 "ErrorOther ''boom''" "''ctx''" ?r ?e4]
  from inst 1 have a: "Exception ?e \<noteq> []" by blast
  from inst 4 have b: "\<exists>g. ?r = Some g \<and> Exception g \<noteq> []" by blast
  then have b': "Exception \<lparr>Code = ErrorCodeGeneric, Exception = ''ctx: boom''\<rparr> \<noteq> []"
    by blast
  from inst 5 6 have c: "Exception ?e4 \<noteq> []" by blast
  from 1 2 3 4 5 6 a b' c show ?thesis by blast
qed

section \<open>The first-error sink as a state machine\<close>

text \<open>
  Claim C1. The sink starts empty, its field the nil interface. In the empty sink
  \<^verbatim>\<open>PushError\<close> coerces its argument with \<^verbatim>\<open>AsException\<close>: a non-nil result is
  stored and is what \<^verbatim>\<open>Error()\<close> then returns; on a nil result the sink is unchanged.
  \<^verbatim>\<open>Error()\<close> returns the field, nil in the empty sink and the held exception
  otherwise, and changes nothing. \<^verbatim>\<open>Reset\<close> makes any sink the empty sink, and a
  push after it stores the new value.
\<close>

theorem singleError_state_machine:
  "singleError_Error FirstOnly = CodedNil \<and>
   (CodedError se = CodedNil \<and> AsException err = Some f \<longrightarrow>
      PushError se err = se\<lparr>CodedError := CodedException (Some f)\<rparr> \<and>
      singleError_Error (PushError se err) = CodedException (Some f)) \<and>
   (CodedError se = CodedNil \<and> AsException err' = None \<longrightarrow> PushError se err' = se) \<and>
   singleError_Error se' = CodedError se' \<and>
   Reset se' = FirstOnly \<and>
   (AsException err = Some f \<longrightarrow>
      singleError_Error (PushError (Reset se') err) = CodedException (Some f))"
proof -
  have a: "singleError_Error FirstOnly = CodedNil"
    by (simp add: singleError_Error_def FirstOnly_def)
  have b: "PushError se err = se\<lparr>CodedError := CodedException (Some f)\<rparr> \<and>
      singleError_Error (PushError se err) = CodedException (Some f)"
    if "CodedError se = CodedNil" "AsException err = Some f"
    using that by (simp add: PushError_empty_present singleError_Error_def)
  have c: "singleError_Error (PushError (Reset se') err) = CodedException (Some f)"
    if "AsException err = Some f"
    using that
    by (simp add: Reset_is_FirstOnly FirstOnly_def PushError_empty_present singleError_Error_def)
  show ?thesis
    using a b c PushError_empty_absent [of se err'] Reset_is_FirstOnly [of se']
    by (auto simp add: singleError_Error_def)
qed

theorem singleError_state_machine_witness:
  "CodedError FirstOnly = CodedNil \<and>
   AsException (ErrorCoded (CodedException
       (NewException ErrorCodeInsufficientGas ''gas exhausted'')))
     = Some \<lparr>Code = ErrorCodeInsufficientGas, Exception = ''gas exhausted''\<rparr> \<and>
   AsException (ErrorCoded CodedNil) = None \<and>
   PushError FirstOnly (ErrorCoded CodedNil) = FirstOnly \<and>
   singleError_Error (PushError FirstOnly (ErrorCoded (CodedException
       (NewException ErrorCodeInsufficientGas ''gas exhausted''))))
     = CodedException (Some \<lparr>Code = ErrorCodeInsufficientGas, Exception = ''gas exhausted''\<rparr>) \<and>
   singleError_Error (PushError
       (Reset (PushError FirstOnly (ErrorOther ''boom'')))
       (ErrorCoded (CodedException (NewException ErrorCodeInsufficientGas ''gas exhausted''))))
     = CodedException (Some \<lparr>Code = ErrorCodeInsufficientGas, Exception = ''gas exhausted''\<rparr>)"
proof -
  let ?f = "\<lparr>Code = ErrorCodeInsufficientGas, Exception = ''gas exhausted''\<rparr>"
  let ?err = "ErrorCoded (CodedException
    (NewException ErrorCodeInsufficientGas ''gas exhausted''))"
  let ?se' = "PushError FirstOnly (ErrorOther ''boom'')"
  have 1: "CodedError FirstOnly = CodedNil" by (simp add: FirstOnly_def)
  have 2: "AsException ?err = Some ?f" by (simp add: NewException_def)
  have 3: "AsException (ErrorCoded CodedNil) = None" by simp
  note inst = singleError_state_machine [of FirstOnly ?err ?f "ErrorCoded CodedNil" ?se']
  from inst 1 2 have a: "singleError_Error (PushError FirstOnly ?err) = CodedException (Some ?f)"
    by blast
  from inst 1 3 have b: "PushError FirstOnly (ErrorCoded CodedNil) = FirstOnly"
    by blast
  from inst 2 have c: "singleError_Error (PushError (Reset ?se') ?err) = CodedException (Some ?f)"
    by blast
  from 1 2 3 a b c show ?thesis by blast
qed

text \<open>
  Claim C2. Once the sink holds an exception \<open>f\<close>, any finite run of further calls of
  \<^verbatim>\<open>PushError\<close>, whatever their arguments, leaves the sink as it is, and \<^verbatim>\<open>Error()\<close>
  still returns \<open>f\<close>.
\<close>

theorem PushErrors_keeps_first:
  "CodedError se = CodedException (Some f) \<Longrightarrow>
   PushErrors se errs = se \<and> singleError_Error (PushErrors se errs) = CodedException (Some f)"
  by (simp add: PushErrors_held singleError_Error_def)

theorem PushErrors_keeps_first_witness:
  "CodedError (PushError FirstOnly (ErrorCoded (CodedException
       (NewException ErrorCodeInsufficientGas ''gas exhausted''))))
     = CodedException (Some \<lparr>Code = ErrorCodeInsufficientGas, Exception = ''gas exhausted''\<rparr>) \<and>
   singleError_Error
     (PushErrors
       (PushError FirstOnly (ErrorCoded (CodedException
          (NewException ErrorCodeInsufficientGas ''gas exhausted''))))
       [ErrorCoded (CodedException (NewException ErrorCodeCallStackOverflow ''stack overflow'')),
        ErrorCoded CodedNil, ErrorOther ''boom'', ErrorCoded (CodedCode ErrorCodeIllegalWrite)])
     = CodedException (Some \<lparr>Code = ErrorCodeInsufficientGas, Exception = ''gas exhausted''\<rparr>)"
proof -
  let ?f = "\<lparr>Code = ErrorCodeInsufficientGas, Exception = ''gas exhausted''\<rparr>"
  let ?se = "PushError FirstOnly (ErrorCoded (CodedException
    (NewException ErrorCodeInsufficientGas ''gas exhausted'')))"
  have h: "CodedError ?se = CodedException (Some ?f)"
    by (simp add: PushError_def FirstOnly_def NewException_def)
  from PushErrors_keeps_first [OF h] h show ?thesis by blast
qed

end
